theory Spec2Isabelle
  imports Main "HOL-Library.Multiset"
begin

section \<open>The recorder application (src/App.jsx) as a shallow embedding\<close>

text \<open>
  The component \<open>App\<close> keeps its state in React state variables and talks to three
  platform services: the file system (expo-file-system), the audio subsystem (expo-av)
  and the clock. The embedding has three layers:
  \<^item> the pure part of \<open>loadRecordings\<close> (lines 69-73): string splitting, the \<open>||\<close>
    fallback, the comparator and \<open>Array.prototype.sort\<close>;
  \<^item> the platform, as a record \<open>world\<close> that the handlers change through platform calls;
    whether a call rejects is not decided by the application, so every handler takes an
    environment \<open>env\<close> that says which calls fail and what the clock reads;
  \<^item> the handlers \<open>loadRecordings\<close>, \<open>startRecording\<close>, \<open>stopRecording\<close>,
    \<open>playSound\<close>, \<open>deleteRecording\<close> and the playback status callback, as functions on
    \<open>app \<times> world\<close>. A handler runs from the state of the render that created it to its
    end; interleavings of two handlers at an \<open>await\<close> are not modelled.
\<close>

subsection \<open>JavaScript strings and numbers\<close>

text \<open>
  \<open>String.prototype.split\<close> with a one-character separator: the pieces between the
  occurrences of the separator, so there is always at least one piece and the empty
  string gives one empty piece. The separators used are ASCII, so splitting bytes and
  splitting UTF-16 code units cut a name at the same places.
\<close>

fun js_split :: "char \<Rightarrow> string \<Rightarrow> string list" where
  "js_split c [] = [[]]"
| "js_split c (x # xs) =
     (if x = c then [] # js_split c xs
      else (case js_split c xs of
              [] \<Rightarrow> [[x]]
            | p # ps \<Rightarrow> (x # p) # ps))"

text \<open>Array indexing \<open>a[i]\<close>: \<open>undefined\<close> (here \<open>None\<close>) out of range.\<close>

fun js_index :: "'a list \<Rightarrow> nat \<Rightarrow> 'a option" where
  "js_index [] i = None"
| "js_index (x # xs) 0 = Some x"
| "js_index (x # xs) (Suc i) = js_index xs i"

text \<open>
  The value stored in the field \<open>date\<close>: the string cut out of the file name, or the number
  read from \<open>Date.now()\<close>.
\<close>

datatype jsval = JString string | JNumber nat

definition is_digit :: "char \<Rightarrow> bool" where
  "is_digit c = (c \<in> set ''0123456789'')"

definition digit_val :: "char \<Rightarrow> nat" where
  "digit_val c = of_char c - 48"

definition decimal_value :: "string \<Rightarrow> nat" where
  "decimal_value s = foldl (\<lambda>a c. 10 * a + digit_val c) 0 s"

text \<open>
  \<open>ToNumber\<close>, applied by the operator \<open>-\<close> to its operands; \<open>None\<close> is \<open>NaN\<close>. A string of
  decimal digits reads as its value, and the empty string as \<open>0\<close>. JavaScript also reads
  signs, surrounding white space, exponents, radix prefixes and \<open>Infinity\<close>; those forms
  are taken as \<open>NaN\<close> here, and every statement below about the order of the list is made
  for digit strings only, of a value below \<open>2^53\<close>, where a double holds the value and the
  difference of two values exactly.
\<close>

fun ToNumber :: "jsval \<Rightarrow> int option" where
  "ToNumber (JNumber n) = Some (int n)"
| "ToNumber (JString s) =
     (if list_all is_digit s then Some (int (decimal_value s)) else None)"

text \<open>
  The template literal \<open>${timestamp}\<close> of a non-negative integer below \<open>10^21\<close>: its decimal
  digits.
\<close>

definition digit_char :: "nat \<Rightarrow> char" where
  "digit_char d = ''0123456789'' ! d"

fun Number_toString :: "nat \<Rightarrow> string" where
  "Number_toString n =
     (if n < 10 then [digit_char n]
      else Number_toString (n div 10) @ [digit_char (n mod 10)])"

declare Number_toString.simps [simp del]

subsection \<open>The catalog entries built by \<open>loadRecordings\<close>\<close>

record item =
  name :: string
  uri :: string
  date :: jsval

text \<open>
  \<open>filename.split('_')[1]?.split('.')[0] || Date.now()\<close>. The optional chain gives
  \<open>undefined\<close> when the name has no second piece; \<open>undefined\<close> and the empty string are
  falsy, every other string is truthy (also \<open>"0"\<close>).
\<close>

definition date_of :: "nat \<Rightarrow> string \<Rightarrow> jsval" where
  "date_of now filename =
     (case js_index (js_split CHR ''_'' filename) 1 of
        None \<Rightarrow> JNumber now
      | Some piece \<Rightarrow>
          (case js_index (js_split CHR ''.'' piece) 0 of
             None \<Rightarrow> JNumber now
           | Some seg \<Rightarrow> if seg = [] then JNumber now else JString seg))"

definition make_item :: "string \<Rightarrow> nat \<Rightarrow> string \<Rightarrow> item" where
  "make_item dir now filename =
     \<lparr>name = filename, uri = dir @ filename, date = date_of now filename\<rparr>"

text \<open>The comparator \<open>(a, b) => b.date - a.date\<close>.\<close>

definition compareFn :: "item \<Rightarrow> item \<Rightarrow> int option" where
  "compareFn a b =
     (case ToNumber (date b) of
        None \<Rightarrow> None
      | Some y \<Rightarrow> (case ToNumber (date a) of None \<Rightarrow> None | Some x \<Rightarrow> Some (y - x)))"

text \<open>\<open>SortCompare\<close> of the language specification: a \<open>NaN\<close> result counts as \<open>+0\<close>.\<close>

definition SortCompare :: "('a \<Rightarrow> 'a \<Rightarrow> int option) \<Rightarrow> 'a \<Rightarrow> 'a \<Rightarrow> int" where
  "SortCompare f a b = (case f a b of None \<Rightarrow> 0 | Some v \<Rightarrow> v)"

text \<open>
  \<open>Array.prototype.sort\<close> is a stable sort. With a consistent comparator every conforming
  engine returns the same array, the one this insertion sort computes: an element goes
  in front of the first later element that does not have to precede it. With an
  inconsistent comparator (one that returns \<open>NaN\<close> for some pairs only) the order is left
  to the engine; the only facts used in that case are that the result is a permutation.
\<close>

fun sort_insert :: "('a \<Rightarrow> 'a \<Rightarrow> int option) \<Rightarrow> 'a \<Rightarrow> 'a list \<Rightarrow> 'a list" where
  "sort_insert f x [] = [x]"
| "sort_insert f x (y # ys) =
     (if SortCompare f x y \<le> 0 then x # y # ys else y # sort_insert f x ys)"

fun Array_sort :: "('a \<Rightarrow> 'a \<Rightarrow> int option) \<Rightarrow> 'a list \<Rightarrow> 'a list" where
  "Array_sort f [] = []"
| "Array_sort f (x # xs) = sort_insert f x (Array_sort f xs)"

text \<open>
  \<open>files.map(filename => ...)\<close>: \<open>Date.now()\<close> is read anew for every element that needs
  it, so the clock is a function of the element's index.
\<close>

fun map_items :: "string \<Rightarrow> (nat \<Rightarrow> nat) \<Rightarrow> nat \<Rightarrow> string list \<Rightarrow> item list" where
  "map_items dir clk i [] = []"
| "map_items dir clk i (f # fs) = make_item dir (clk i) f # map_items dir clk (Suc i) fs"

definition fileList :: "string \<Rightarrow> (nat \<Rightarrow> nat) \<Rightarrow> string list \<Rightarrow> item list" where
  "fileList dir clk files = Array_sort compareFn (map_items dir clk 0 files)"

subsection \<open>Naming a new recording (\<open>stopRecording\<close>, lines 148-151)\<close>

datatype platform_os = Ios | Android | OtherOS

fun getFileExtension :: "platform_os \<Rightarrow> string" where
  "getFileExtension Ios = ''.wav''"
| "getFileExtension Android = ''.ogg''"
| "getFileExtension OtherOS = ''.m4a''"

definition newFilename :: "platform_os \<Rightarrow> nat \<Rightarrow> string" where
  "newFilename os timestamp = ''rec_'' @ Number_toString timestamp @ getFileExtension os"

subsection \<open>The platform\<close>

text \<open>
  Every platform call the handlers make. The platform keeps a \<open>trace\<close> of the calls
  issued, oldest first, so that the order of two calls and the absence of a call can be
  stated.
\<close>

datatype call =
    GetInfo
  | MakeDirectory
  | ReadDirectory
  | MoveFile string string
  | DeleteFile string
  | RequestPermission
  | SetAudioMode
  | CreateRecording
  | StopAndUnload nat
  | CreateSound string
  | PauseSound nat
  | UnloadSound nat

datatype permission = Granted | Denied | Undetermined

text \<open>
  \<open>dirFiles\<close> is the content of the recordings directory in the order
  \<open>readDirectoryAsync\<close> enumerates it; \<open>recorders\<close> are the capture resources that are
  open; \<open>sounds\<close> maps the handle of every loaded playback resource to its source and
  to whether it is playing; \<open>fresh\<close> is the handle the next resource gets.
\<close>

record world =
  dirExists :: bool
  dirFiles :: "string list"
  recorders :: "nat list"
  sounds :: "nat \<Rightarrow> (string \<times> bool) option"
  fresh :: nat
  trace :: "call list"
  alerts :: "string list"

text \<open>
  What the application cannot decide, fixed for one run of a handler: the platform
  constants, which calls reject, what \<open>Date.now()\<close> returns, the answer to a permission
  request and the location of a recorder's temporary file. In \<open>loadRecordings\<close>,
  \<open>clock i\<close> is what \<open>Date.now()\<close> returns while the entry of index \<open>i\<close> is built (it is
  read only if that entry needs it). In \<open>stopRecording\<close>, \<open>clock 0\<close> is the timestamp
  of the new file and the listing that follows sees \<open>clock (Suc i)\<close> for the entry of
  index \<open>i\<close>.
\<close>

record env =
  OS :: platform_os
  documentDirectory :: string
  fails :: "call \<Rightarrow> bool"
  clock :: "nat \<Rightarrow> nat"
  requestResult :: permission
  getURI :: "nat \<Rightarrow> string"

definition RECORDINGS_DIR :: "env \<Rightarrow> string" where
  "RECORDINGS_DIR e = documentDirectory e @ ''recordings/''"

definition log :: "call \<Rightarrow> world \<Rightarrow> world" where
  "log c w = w\<lparr>trace := trace w @ [c]\<rparr>"

definition alert :: "string \<Rightarrow> world \<Rightarrow> world" where
  "alert msg w = w\<lparr>alerts := alerts w @ [msg]\<rparr>"

definition unload :: "nat \<Rightarrow> world \<Rightarrow> world" where
  "unload h w = w\<lparr>sounds := (sounds w)(h := None)\<rparr>"

definition setPlaying :: "nat \<Rightarrow> bool \<Rightarrow> world \<Rightarrow> world" where
  "setPlaying h p w =
     w\<lparr>sounds := (sounds w)(h := map_option (\<lambda>(src, _). (src, p)) (sounds w h))\<rparr>"

subsection \<open>The state of the component\<close>

text \<open>
  The seven state variables of \<open>App\<close> (lines 29-35). \<open>recording\<close> and \<open>sound\<close> hold
  handles; \<open>permissionResponse\<close> is \<open>null\<close> until the permission hook has answered.
\<close>

record app =
  recording :: "nat option"
  sound :: "nat option"
  isRecording :: bool
  isPlaying :: bool
  playingUri :: "string option"
  recordings :: "item list"
  permissionResponse :: "permission option"

definition initial :: app where
  "initial = \<lparr>recording = None, sound = None, isRecording = False, isPlaying = False,
     playingUri = None, recordings = [], permissionResponse = None\<rparr>"

subsection \<open>The handlers\<close>

text \<open>\<open>ensureDirExists\<close> (lines 51-60); the result says whether the promise resolved.\<close>

definition ensureDirExists :: "env \<Rightarrow> world \<Rightarrow> bool \<times> world" where
  "ensureDirExists e w =
     (let w1 = log GetInfo w in
      if fails e GetInfo then (False, w1)
      else if dirExists w1 then (True, w1)
      else (let w2 = log MakeDirectory w1 in
            if fails e MakeDirectory then (False, w2)
            else (True, w2\<lparr>dirExists := True\<rparr>)))"

text \<open>
  \<open>loadRecordings\<close> (lines 63-79): \<open>setRecordings\<close> is the last statement of the
  \<open>try\<close> block, and the \<open>catch\<close> block only writes to the console.
\<close>

fun loadRecordings :: "env \<Rightarrow> app \<times> world \<Rightarrow> app \<times> world" where
  "loadRecordings e (s, w) =
     (case ensureDirExists e w of
        (False, w1) \<Rightarrow> (s, w1)
      | (True, w1) \<Rightarrow>
          (let w2 = log ReadDirectory w1 in
           if fails e ReadDirectory then (s, w2)
           else (s\<lparr>recordings := fileList (RECORDINGS_DIR e) (clock e) (dirFiles w2)\<rparr>, w2)))"

text \<open>
  \<open>startRecording\<close> (lines 82-135). Reading \<open>permissionResponse.status\<close> of \<open>null\<close>
  throws inside the \<open>try\<close> block. The value that \<open>requestPermission()\<close> resolves to is
  not looked at; the permission hook stores it in \<open>permissionResponse\<close>.
\<close>

fun startRecording :: "env \<Rightarrow> app \<times> world \<Rightarrow> app \<times> world" where
  "startRecording e (s, w) =
     (case permissionResponse s of
        None \<Rightarrow> (s, alert ''Failed to start recording'' w)
      | Some status \<Rightarrow>
          if status \<noteq> Granted \<and> fails e RequestPermission
          then (s, alert ''Failed to start recording'' (log RequestPermission w))
          else
            (let s1 = (if status \<noteq> Granted
                       then s\<lparr>permissionResponse := Some (requestResult e)\<rparr> else s);
                 w1 = (if status \<noteq> Granted then log RequestPermission w else w);
                 w2 = log SetAudioMode w1
             in if fails e SetAudioMode
                then (s1, alert ''Failed to start recording'' w2)
                else
                  (let w3 = log CreateRecording w2 in
                   if fails e CreateRecording
                   then (s1, alert ''Failed to start recording'' w3)
                   else (s1\<lparr>recording := Some (fresh w3), isRecording := True\<rparr>,
                         w3\<lparr>recorders := recorders w3 @ [fresh w3],
                            fresh := Suc (fresh w3)\<rparr>))))"

text \<open>
  \<open>stopRecording\<close> (lines 137-163). \<open>stopAndUnloadAsync\<close> is awaited outside the
  \<open>try\<close> block: when it rejects, the handler ends there, after \<open>setIsRecording(false)\<close>.
  A file moved into the directory is enumerated last, unless a file of that name is
  there already. \<open>loadRecordings()\<close> is the handler's last statement and is run to its end
  here; it reads the clock after \<open>stopRecording\<close> has read it once.
\<close>

fun stopRecording :: "env \<Rightarrow> app \<times> world \<Rightarrow> app \<times> world" where
  "stopRecording e (s, w) =
     (case recording s of
        None \<Rightarrow> (s, w)
      | Some r \<Rightarrow>
          (let s1 = s\<lparr>isRecording := False\<rparr>;
               w1 = log (StopAndUnload r) w
           in if fails e (StopAndUnload r) then (s1, w1)
              else
                (let w2 = w1\<lparr>recorders := removeAll r (recorders w1)\<rparr>;
                     from_uri = getURI e r;
                     s2 = s1\<lparr>recording := None\<rparr>;
                     extension = getFileExtension (OS e);
                     timestamp = clock e 0;
                     filename = ''rec_'' @ Number_toString timestamp @ extension;
                     newUri = RECORDINGS_DIR e @ filename;
                     w3 = log (MoveFile from_uri newUri) w2
                 in if fails e (MoveFile from_uri newUri) then (s2, w3)
                    else loadRecordings (e\<lparr>clock := \<lambda>i. clock e (Suc i)\<rparr>)
                           (s2, w3\<lparr>dirFiles := (if filename \<in> set (dirFiles w3)
                                                then dirFiles w3
                                                else dirFiles w3 @ [filename])\<rparr>))))"

text \<open>The record button (line 269): \<open>onPress={isRecording ? stopRecording : startRecording}\<close>.\<close>

fun pressRecordButton :: "env \<Rightarrow> app \<times> world \<Rightarrow> app \<times> world" where
  "pressRecordButton e (s, w) =
     (if isRecording s then stopRecording e (s, w) else startRecording e (s, w))"

text \<open>Lines 180-195 of \<open>playSound\<close>: create the sound, playing, and store it.\<close>

fun createAndPlay :: "env \<Rightarrow> string \<Rightarrow> app \<times> world \<Rightarrow> app \<times> world" where
  "createAndPlay e u (s, w) =
     (let w1 = log (CreateSound u) w in
      if fails e (CreateSound u) then (s, alert ''Could not play audio file'' w1)
      else (s\<lparr>sound := Some (fresh w1), playingUri := Some u, isPlaying := True\<rparr>,
            w1\<lparr>sounds := (sounds w1)(fresh w1 \<mapsto> (u, True)), fresh := Suc (fresh w1)\<rparr>))"

text \<open>\<open>playSound\<close> (lines 166-200).\<close>

fun playSound :: "env \<Rightarrow> string \<Rightarrow> app \<times> world \<Rightarrow> app \<times> world" where
  "playSound e u (s, w) =
     (case sound s of
        None \<Rightarrow> createAndPlay e u (s, w)
      | Some h \<Rightarrow>
          if playingUri s = Some u \<and> isPlaying s
          then (if fails e (PauseSound h)
                then (s, alert ''Could not play audio file'' (log (PauseSound h) w))
                else (s\<lparr>isPlaying := False\<rparr>, setPlaying h False (log (PauseSound h) w)))
          else if fails e (UnloadSound h)
          then (s, alert ''Could not play audio file'' (log (UnloadSound h) w))
          else createAndPlay e u (s, unload h (log (UnloadSound h) w)))"

text \<open>
  The callback that \<open>playSound\<close> registers on every sound it creates (lines 190-195),
  and the platform's event that runs it: a loaded sound reaches its end, stops playing
  and reports \<open>didJustFinish\<close>.
\<close>

definition onPlaybackStatusUpdate :: "bool \<Rightarrow> app \<Rightarrow> app" where
  "onPlaybackStatusUpdate didJustFinish s =
     (if didJustFinish then s\<lparr>isPlaying := False, playingUri := None\<rparr> else s)"

fun playbackFinished :: "nat \<Rightarrow> app \<times> world \<Rightarrow> app \<times> world" where
  "playbackFinished h (s, w) =
     (case sounds w h of
        None \<Rightarrow> (s, w)
      | Some _ \<Rightarrow> (onPlaybackStatusUpdate True s, setPlaying h False w))"

text \<open>Lines 211-213 of \<open>deleteRecording\<close>: delete the file, then list again.\<close>

fun deleteAndReload :: "env \<Rightarrow> string \<Rightarrow> app \<times> world \<Rightarrow> app \<times> world" where
  "deleteAndReload e u (s, w) =
     (let w1 = log (DeleteFile u) w in
      if fails e (DeleteFile u) then (s, w1)
      else loadRecordings e
             (s, w1\<lparr>dirFiles := filter (\<lambda>f. RECORDINGS_DIR e @ f \<noteq> u) (dirFiles w1)\<rparr>))"

text \<open>\<open>deleteRecording\<close> (lines 203-217); its \<open>catch\<close> block only writes to the console.\<close>

fun deleteRecording :: "env \<Rightarrow> string \<Rightarrow> app \<times> world \<Rightarrow> app \<times> world" where
  "deleteRecording e u (s, w) =
     (case sound s of
        None \<Rightarrow> deleteAndReload e u (s, w)
      | Some h \<Rightarrow>
          if playingUri s = Some u
          then (if fails e (UnloadSound h) then (s, log (UnloadSound h) w)
                else deleteAndReload e u
                       (s\<lparr>playingUri := None, isPlaying := False\<rparr>,
                        unload h (log (UnloadSound h) w)))
          else deleteAndReload e u (s, w))"

declare loadRecordings.simps [simp del] startRecording.simps [simp del]
  stopRecording.simps [simp del] pressRecordButton.simps [simp del]
  createAndPlay.simps [simp del] playSound.simps [simp del]
  playbackFinished.simps [simp del] deleteAndReload.simps [simp del]
  deleteRecording.simps [simp del]

subsection \<open>Vocabulary of the specification\<close>

text \<open>
  The entry that \<open>loadRecordings\<close> builds for the file that \<open>stopRecording\<close> names at
  time \<open>t\<close>.
\<close>

definition committed :: "string \<Rightarrow> platform_os \<Rightarrow> nat \<Rightarrow> item" where
  "committed dir os t =
     \<lparr>name = newFilename os t, uri = dir @ newFilename os t,
      date = JString (Number_toString t)\<rparr>"





text \<open>
  The states of the playback session. \<open>Loaded u p\<close>: the component holds a handle to a
  loaded resource for \<open>u\<close>, playing or not as \<open>p\<close> says. \<open>Empty\<close>: no active identity,
  nothing marked as playing, and the handle the component holds, if any, is not that of
  a loaded resource.
\<close>

fun Loaded :: "string \<Rightarrow> bool \<Rightarrow> app \<times> world \<Rightarrow> bool" where
  "Loaded u p (s, w) =
     (case sound s of
        None \<Rightarrow> False
      | Some h \<Rightarrow> playingUri s = Some u \<and> isPlaying s = p \<and> sounds w h = Some (u, p))"

fun Empty :: "app \<times> world \<Rightarrow> bool" where
  "Empty (s, w) =
     (playingUri s = None \<and> \<not> isPlaying s \<and>
      (case sound s of None \<Rightarrow> True | Some h \<Rightarrow> sounds w h = None))"

text \<open>
  Handles are given out in increasing order: the handle the component holds for a sound
  is below the next handle of the platform. Every handler keeps this, from the initial
  state on (\<open>sound_handle_ok_steps\<close> below).
\<close>

fun sound_handle_ok :: "app \<times> world \<Rightarrow> bool" where
  "sound_handle_ok (s, w) = (case sound s of None \<Rightarrow> True | Some h \<Rightarrow> h < fresh w)"

text \<open>A platform call that \<open>loadRecordings\<close> makes from the world \<open>w\<close> fails.\<close>

definition listFails :: "env \<Rightarrow> world \<Rightarrow> bool" where
  "listFails e w =
     (fails e GetInfo \<or> (\<not> dirExists w \<and> fails e MakeDirectory) \<or> fails e ReadDirectory)"

text \<open>
  The run of \<open>startRecording\<close> from the state \<open>s\<close> throws: the permission status is
  \<open>null\<close>, or one of the platform calls it makes rejects.
\<close>

definition startFails :: "env \<Rightarrow> app \<Rightarrow> bool" where
  "startFails e s =
     (case permissionResponse s of
        None \<Rightarrow> True
      | Some status \<Rightarrow>
          (status \<noteq> Granted \<and> fails e RequestPermission)
          \<or> fails e SetAudioMode \<or> fails e CreateRecording)"

text \<open>The calls issued since the trace was \<open>before\<close>.\<close>

definition issued :: "world \<Rightarrow> world \<Rightarrow> call list" where
  "issued before after = drop (length (trace before)) (trace after)"

subsection \<open>Concrete platforms and states for the examples\<close>

definition clock0 :: "nat \<Rightarrow> nat" where
  "clock0 i = 100 + i"

definition nothing_fails :: "call \<Rightarrow> bool" where
  "nothing_fails c = False"

definition readdir_fails :: "call \<Rightarrow> bool" where
  "readdir_fails c = (c = ReadDirectory)"

definition open_fails :: "call \<Rightarrow> bool" where
  "open_fails c = (c = CreateRecording)"

definition unload_fails :: "call \<Rightarrow> bool" where
  "unload_fails c = (c = UnloadSound 0)"

definition cacheURI :: "nat \<Rightarrow> string" where
  "cacheURI h = ''file:///cache/recording-'' @ Number_toString h"

definition clock_at :: "nat \<Rightarrow> nat \<Rightarrow> nat" where
  "clock_at t i = t"

definition env0 :: env where
  "env0 = \<lparr>OS = Ios, documentDirectory = ''file:///doc/'', fails = nothing_fails,
     clock = clock0, requestResult = Denied, getURI = cacheURI\<rparr>"

definition world0 :: world where
  "world0 = \<lparr>dirExists = True, dirFiles = [], recorders = [], sounds = Map.empty,
     fresh = 0, trace = [], alerts = []\<rparr>"

definition granted0 :: app where
  "granted0 = initial\<lparr>permissionResponse := Some Granted\<rparr>"

definition denied0 :: app where
  "denied0 = initial\<lparr>permissionResponse := Some Denied\<rparr>"

text \<open>One recording made at time \<open>t\<close>: a capture started, then stopped.\<close>

definition commit_at :: "nat \<Rightarrow> app \<times> world \<Rightarrow> app \<times> world" where
  "commit_at t sw = stopRecording (env0\<lparr>clock := clock_at t\<rparr>) (startRecording env0 sw)"

section \<open>Properties of the catalog\<close>

subsection \<open>Digits\<close>







subsection \<open>Splitting\<close>

lemma js_split_prefix:
  "c \<notin> set p \<Longrightarrow> js_split c (p @ c # rest) = p # js_split c rest"
  by (induction p) (auto split: list.splits)

lemma js_split_none: "c \<notin> set p \<Longrightarrow> js_split c p = [p]"
  by (induction p) (auto split: list.splits)


subsection \<open>Sorting\<close>

lemma mset_sort_insert: "mset (sort_insert f x ys) = add_mset x (mset ys)"
  by (induction ys) auto

lemma mset_Array_sort: "mset (Array_sort f xs) = mset xs"
  by (induction xs) (auto simp: mset_sort_insert)




lemma mset_fileList: "mset (fileList dir clk files) = mset (map_items dir clk 0 files)"
  by (simp add: fileList_def mset_Array_sort)

lemma set_fileList: "set (fileList dir clk files) = set (map_items dir clk 0 files)"
  using mset_fileList by (rule mset_eq_setD)

lemma uri_map_items: "map uri (map_items dir clk i files) = map ((@) dir) files"
  by (induction files arbitrary: i) (simp_all add: make_item_def)

lemma name_map_items: "map name (map_items dir clk i files) = files"
  by (induction files arbitrary: i) (simp_all add: make_item_def)

lemma uri_fileList: "uri ` set (fileList dir clk files) = (@) dir ` set files"
proof -
  have "uri ` set (fileList dir clk files) = set (map uri (map_items dir clk 0 files))"
    by (simp add: set_fileList)
  then show ?thesis by (simp add: uri_map_items)
qed

subsection \<open>Listing committed recordings\<close>







subsection \<open>Names that do not follow the pattern\<close>

lemma js_index_split_0: "js_index (js_split c s) 0 = Some (takeWhile (\<lambda>x. x \<noteq> c) s)"
  by (induction s) (auto split: list.splits)

lemma takeWhile_sep_append:
  "c \<notin> set s \<Longrightarrow> takeWhile (\<lambda>x. x \<noteq> c) (s @ t) = s @ takeWhile (\<lambda>x. x \<noteq> c) t"
  by (induction s) auto

lemma takeWhile_sep_id: "c \<notin> set s \<Longrightarrow> takeWhile (\<lambda>x. x \<noteq> c) s = s"
  by (induction s) auto

lemma segment_cut:
  assumes "CHR ''_'' \<notin> set seg" "CHR ''.'' \<notin> set seg"
    and "rest = [] \<or> hd rest = CHR ''.'' \<or> hd rest = CHR ''_''"
  shows "takeWhile (\<lambda>x. x \<noteq> CHR ''.'') (takeWhile (\<lambda>x. x \<noteq> CHR ''_'') (seg @ rest)) = seg"
proof (cases rest)
  case Nil
  then show ?thesis
    by (simp add: takeWhile_sep_id[OF assms(1)] takeWhile_sep_id[OF assms(2)])
next
  case (Cons c r)
  then have "c = CHR ''.'' \<or> c = CHR ''_''" using assms(3) by simp
  then show ?thesis
  proof
    assume "c = CHR ''.''"
    then have "takeWhile (\<lambda>x. x \<noteq> CHR ''_'') (seg @ rest)
        = seg @ CHR ''.'' # takeWhile (\<lambda>x. x \<noteq> CHR ''_'') r"
      using takeWhile_sep_append[OF assms(1), of rest] Cons by simp
    then show ?thesis
      using takeWhile_sep_append[OF assms(2)] by simp
  next
    assume "c = CHR ''_''"
    then have "takeWhile (\<lambda>x. x \<noteq> CHR ''_'') (seg @ rest) = seg"
      using takeWhile_sep_append[OF assms(1), of rest] Cons by simp
    then show ?thesis
      by (simp add: takeWhile_sep_id[OF assms(2)])
  qed
qed

lemma date_of_no_underscore: "CHR ''_'' \<notin> set f \<Longrightarrow> date_of now f = JNumber now"
  by (simp add: date_of_def js_split_none)

lemma date_of_segment:
  assumes "CHR ''_'' \<notin> set p" "CHR ''_'' \<notin> set seg" "CHR ''.'' \<notin> set seg"
    and "rest = [] \<or> hd rest = CHR ''.'' \<or> hd rest = CHR ''_''"
  shows "date_of now (p @ CHR ''_'' # seg @ rest)
    = (if seg = [] then JNumber now else JString seg)"
proof -
  have "js_index (js_split CHR ''_'' (p @ CHR ''_'' # seg @ rest)) 1
      = js_index (js_split CHR ''_'' (seg @ rest)) 0"
    using assms(1) by (simp add: js_split_prefix)
  then have 1: "js_index (js_split CHR ''_'' (p @ CHR ''_'' # seg @ rest)) 1
      = Some (takeWhile (\<lambda>x. x \<noteq> CHR ''_'') (seg @ rest))"
    by (simp only: js_index_split_0)
  show ?thesis
    unfolding date_of_def 1 option.case js_index_split_0
    using segment_cut[OF assms(2,3,4)] by simp
qed

lemma length_map_items: "length (map_items dir clk k files) = length files"
  by (induction files arbitrary: k) simp_all

lemma nth_map_items:
  "i < length files \<Longrightarrow>
     map_items dir clk k files ! i = make_item dir (clk (k + i)) (files ! i)"
proof (induction files arbitrary: k i)
  case Nil
  then show ?case by simp
next
  case (Cons f fs)
  then show ?case by (cases i) simp_all
qed

text \<open>
  C2, as the code has it. Every file of the directory is listed exactly once, whatever
  its name, with the entry built for it. The date of the entry is the reading of the
  clock when the name has no \<open>_\<close>, or when nothing stands between its first \<open>_\<close> and
  the \<open>.\<close> or \<open>_\<close> that follows. Otherwise the date is that piece of the name as it
  is, digits or not.
\<close>

theorem C2_every_file_listed:
  "mset (map name (fileList dir clk files)) = mset files
   \<and> (i < length files \<longrightarrow>
        make_item dir (clk i) (files ! i) \<in> set (fileList dir clk files))
   \<and> (CHR ''_'' \<notin> set f \<longrightarrow> date_of now f = JNumber now)
   \<and> (CHR ''_'' \<notin> set p \<and> CHR ''_'' \<notin> set seg \<and> CHR ''.'' \<notin> set seg
       \<and> (rest = [] \<or> hd rest = CHR ''.'' \<or> hd rest = CHR ''_'') \<longrightarrow>
        date_of now (p @ CHR ''_'' # seg @ rest)
          = (if seg = [] then JNumber now else JString seg))"
proof (intro conjI impI)
  have "mset (map name (fileList dir clk files)) = image_mset name (mset (fileList dir clk files))"
    by simp
  also have "\<dots> = mset (map name (map_items dir clk 0 files))"
    by (simp add: mset_fileList)
  finally show "mset (map name (fileList dir clk files)) = mset files"
    by (simp add: name_map_items)
next
  assume i: "i < length files"
  then have "map_items dir clk 0 files ! i \<in> set (map_items dir clk 0 files)"
    by (simp add: length_map_items)
  then show "make_item dir (clk i) (files ! i) \<in> set (fileList dir clk files)"
    using i by (simp add: nth_map_items set_fileList)
next
  assume "CHR ''_'' \<notin> set f"
  then show "date_of now f = JNumber now" by (rule date_of_no_underscore)
next
  assume "CHR ''_'' \<notin> set p \<and> CHR ''_'' \<notin> set seg \<and> CHR ''.'' \<notin> set seg
       \<and> (rest = [] \<or> hd rest = CHR ''.'' \<or> hd rest = CHR ''_'')"
  then show "date_of now (p @ CHR ''_'' # seg @ rest)
          = (if seg = [] then JNumber now else JString seg)"
    using date_of_segment by blast
qed

theorem C2_every_file_listed_witness:
  "make_item ''d/'' (clock0 1) ''notes.txt'' \<in> set (fileList ''d/'' clock0 [''rec_abc.wav'', ''notes.txt''])
   \<and> date_of 7 ''notes.txt'' = JNumber 7
   \<and> date_of 7 ''rec_abc.wav'' = JString ''abc''
   \<and> date_of 7 ''rec_.wav'' = JNumber 7"
  using C2_every_file_listed[of "''d/''" clock0 "[''rec_abc.wav'', ''notes.txt'']" 1
      "''notes.txt''" 7 "''rec''" "''abc''" "''.wav''"]
    C2_every_file_listed[of "''d/''" clock0 "[''rec_abc.wav'', ''notes.txt'']" 1
      "''notes.txt''" 7 "''rec''" "[]" "''.wav''"]
  by simp

text \<open>
  The file \<open>rec_abc.wav\<close> is listed with the date \<open>"abc"\<close>, which is not a reading of
  the clock and reads as \<open>NaN\<close>.
\<close>

theorem C2_non_numeric_counterexample:
  "date_of (clock0 0) ''rec_abc.wav'' = JString ''abc''
   \<and> date_of (clock0 0) ''rec_abc.wav'' \<noteq> JNumber (clock0 0)
   \<and> fileList ''d/'' clock0 [''rec_abc.wav'']
       = [\<lparr>name = ''rec_abc.wav'', uri = ''d/rec_abc.wav'', date = JString ''abc''\<rparr>]
   \<and> ToNumber (JString ''abc'') = None"
  by (simp add: date_of_def fileList_def make_item_def is_digit_def)

section \<open>Properties of the handlers\<close>

lemmas world_ops = log_def alert_def unload_def setPlaying_def issued_def

subsection \<open>What \<open>loadRecordings\<close> changes\<close>

lemma loadRecordings_failed:
  "listFails e w \<Longrightarrow> fst (loadRecordings e (s, w)) = s"
  by (auto simp: listFails_def loadRecordings.simps ensureDirExists_def Let_def world_ops
      split: prod.splits bool.splits)

lemma loadRecordings_rebuilt:
  "\<not> listFails e w \<Longrightarrow>
     fst (loadRecordings e (s, w))
       = s\<lparr>recordings := fileList (RECORDINGS_DIR e) (clock e) (dirFiles w)\<rparr>"
  by (auto simp: listFails_def loadRecordings.simps ensureDirExists_def Let_def world_ops
      split: prod.splits bool.splits)

lemma loadRecordings_session:
  "sound (fst (loadRecordings e (s, w))) = sound s
   \<and> playingUri (fst (loadRecordings e (s, w))) = playingUri s
   \<and> isPlaying (fst (loadRecordings e (s, w))) = isPlaying s"
  by (auto simp: loadRecordings.simps ensureDirExists_def Let_def world_ops
      split: prod.splits bool.splits)

lemma loadRecordings_trace:
  "trace (snd (loadRecordings e (s, w))) = trace w @ issued w (snd (loadRecordings e (s, w)))"
  by (auto simp: loadRecordings.simps ensureDirExists_def Let_def world_ops
      split: prod.splits bool.splits)

lemma loadRecordings_sounds: "sounds (snd (loadRecordings e (s, w))) = sounds w"
  by (auto simp: loadRecordings.simps ensureDirExists_def Let_def world_ops
      split: prod.splits bool.splits)

lemma loadRecordings_fresh:
  "fresh (snd (loadRecordings e (s, w))) = fresh w"
  by (auto simp: loadRecordings.simps ensureDirExists_def Let_def world_ops
      split: prod.splits bool.splits)

lemma sound_handle_ok_loadRecordings:
  "sound_handle_ok (loadRecordings e (s, w)) = sound_handle_ok (s, w)"
proof -
  obtain s' w' where r: "loadRecordings e (s, w) = (s', w')" by (cases "loadRecordings e (s, w)")
  have "sound s' = sound s" "fresh w' = fresh w"
    using loadRecordings_session[of e s w] loadRecordings_fresh[of e s w] r by simp_all
  then show ?thesis by (simp add: r split: option.splits)
qed

lemma Empty_loadRecordings:
  "Empty (loadRecordings e (s, w)) = Empty (s, w)"
proof -
  obtain s' w' where r: "loadRecordings e (s, w) = (s', w')" by (cases "loadRecordings e (s, w)")
  have "sound s' = sound s" "playingUri s' = playingUri s" "isPlaying s' = isPlaying s"
      "sounds w' = sounds w"
    using loadRecordings_session[of e s w] loadRecordings_sounds[of e s w] r by simp_all
  then show ?thesis by (auto simp: r split: option.splits)
qed

lemma issued_loadRecordings:
  assumes "trace w1 = trace w @ pre"
  shows "issued w (snd (loadRecordings e (s, w1)))
    = pre @ issued w1 (snd (loadRecordings e (s, w1)))"
proof -
  obtain t where t: "trace (snd (loadRecordings e (s, w1))) = trace w1 @ t"
    using loadRecordings_trace[of e s w1] by blast
  then show ?thesis using assms by (simp add: issued_def)
qed

text \<open>
  C9. When a platform call of \<open>loadRecordings\<close> fails, the state of the component, and
  with it the visible list, is what it was. When none fails, the list is replaced by one
  built from the directory alone.
\<close>

theorem C9_failed_list_keeps_view:
  "(listFails e w \<longrightarrow> fst (loadRecordings e (s, w)) = s)
   \<and> (\<not> listFails e w \<longrightarrow>
        fst (loadRecordings e (s, w))
          = s\<lparr>recordings := fileList (RECORDINGS_DIR e) (clock e) (dirFiles w)\<rparr>)"
  using loadRecordings_failed[of e w s] loadRecordings_rebuilt[of e w s] by blast

theorem C9_failed_list_keeps_view_witness:
  "listFails (env0\<lparr>fails := readdir_fails\<rparr>) (world0\<lparr>dirFiles := [''rec_7.wav'']\<rparr>)
   \<and> fst (loadRecordings (env0\<lparr>fails := readdir_fails\<rparr>)
        (initial\<lparr>recordings := [committed ''d/'' Ios 5]\<rparr>, world0\<lparr>dirFiles := [''rec_7.wav'']\<rparr>))
      = initial\<lparr>recordings := [committed ''d/'' Ios 5]\<rparr>
   \<and> \<not> listFails env0 (world0\<lparr>dirFiles := [''rec_7.wav'']\<rparr>)
   \<and> recordings (fst (loadRecordings env0
        (initial\<lparr>recordings := [committed ''d/'' Ios 5]\<rparr>, world0\<lparr>dirFiles := [''rec_7.wav'']\<rparr>)))
      = [\<lparr>name = ''rec_7.wav'', uri = ''file:///doc/recordings/rec_7.wav'', date = JString ''7''\<rparr>]"
  using C9_failed_list_keeps_view[of "env0\<lparr>fails := readdir_fails\<rparr>"
      "world0\<lparr>dirFiles := [''rec_7.wav'']\<rparr>" "initial\<lparr>recordings := [committed ''d/'' Ios 5]\<rparr>"]
    C9_failed_list_keeps_view[of env0
      "world0\<lparr>dirFiles := [''rec_7.wav'']\<rparr>" "initial\<lparr>recordings := [committed ''d/'' Ios 5]\<rparr>"]
  by (simp add: listFails_def env0_def world0_def readdir_fails_def nothing_fails_def
      RECORDINGS_DIR_def fileList_def make_item_def date_of_def)

subsection \<open>Handles\<close>

lemma sound_handle_ok_initial: "sound_handle_ok (initial, w)"
  by (simp add: initial_def)

lemma sound_handle_ok_steps:
  assumes "sound_handle_ok (s, w)"
  shows "sound_handle_ok (playSound e u (s, w))"
    and "sound_handle_ok (playbackFinished h (s, w))"
    and "sound_handle_ok (startRecording e (s, w))"
    and "sound_handle_ok (stopRecording e (s, w))"
    and "sound_handle_ok (deleteRecording e u (s, w))"
proof -
  show "sound_handle_ok (playSound e u (s, w))"
    using assms
    by (auto simp: playSound.simps createAndPlay.simps Let_def world_ops
        split: option.splits)
  show "sound_handle_ok (playbackFinished h (s, w))"
    using assms
    by (auto simp: playbackFinished.simps onPlaybackStatusUpdate_def
        world_ops split: option.splits)
  show "sound_handle_ok (startRecording e (s, w))"
    using assms
    by (auto simp: startRecording.simps Let_def world_ops split: option.splits)
  show "sound_handle_ok (stopRecording e (s, w))"
    using assms
    by (auto simp: stopRecording.simps Let_def world_ops sound_handle_ok_loadRecordings
        split: option.splits)
  show "sound_handle_ok (deleteRecording e u (s, w))"
    using assms
    by (auto simp: deleteRecording.simps deleteAndReload.simps Let_def world_ops
        sound_handle_ok_loadRecordings split: option.splits)
qed

subsection \<open>Capture\<close>

text \<open>
  Three recordings made through the handlers at the times 100, 200 and 150, on a platform
  that rejects nothing: the list that the last \<open>stopRecording\<close> leaves is in the order
  200, 150, 100.
\<close>

lemma commit_scenario:
  "map name (recordings (fst (commit_at 150 (commit_at 200 (commit_at 100 (granted0, world0))))))
     = [''rec_200.wav'', ''rec_150.wav'', ''rec_100.wav'']"
  by (simp add: commit_at_def startRecording.simps stopRecording.simps loadRecordings.simps
      ensureDirExists_def Let_def world_ops granted0_def initial_def world0_def env0_def
      nothing_fails_def RECORDINGS_DIR_def newFilename_def clock_at_def
      Number_toString.simps digit_char_def fileList_def make_item_def date_of_def
      compareFn_def SortCompare_def is_digit_def decimal_value_def digit_val_def)

lemma startRecording_failed:
  "startFails e s \<Longrightarrow>
     recording (fst (startRecording e (s, w))) = recording s
     \<and> isRecording (fst (startRecording e (s, w))) = isRecording s
     \<and> recorders (snd (startRecording e (s, w))) = recorders w
     \<and> alerts (snd (startRecording e (s, w))) = alerts w @ [''Failed to start recording'']"
  by (auto simp: startFails_def startRecording.simps Let_def world_ops split: option.splits)

lemma startRecording_opened:
  "\<not> startFails e s \<Longrightarrow>
     recording (fst (startRecording e (s, w))) = Some (fresh w)
     \<and> isRecording (fst (startRecording e (s, w)))
     \<and> recorders (snd (startRecording e (s, w))) = recorders w @ [fresh w]
     \<and> alerts (snd (startRecording e (s, w))) = alerts w
     \<and> CreateRecording \<in> set (issued w (snd (startRecording e (s, w))))"
  by (auto simp: startFails_def startRecording.simps Let_def world_ops split: option.splits)

lemma startRecording_denied_trace:
  "permissionResponse s = Some status \<Longrightarrow> status \<noteq> Granted \<Longrightarrow> \<not> startFails e s \<Longrightarrow>
     issued w (snd (startRecording e (s, w))) = [RequestPermission, SetAudioMode, CreateRecording]
     \<and> permissionResponse (fst (startRecording e (s, w))) = Some (requestResult e)"
  by (auto simp: startFails_def startRecording.simps Let_def world_ops split: option.splits)

lemma startRecording_null:
  "permissionResponse s = None \<Longrightarrow>
     startRecording e (s, w) = (s, alert ''Failed to start recording'' w)"
  by (simp add: startRecording.simps)

lemma loadRecordings_recorders:
  "recorders (snd (loadRecordings e (s, w))) = recorders w
   \<and> CreateRecording \<notin> set (issued w (snd (loadRecordings e (s, w))))"
  by (auto simp: loadRecordings.simps ensureDirExists_def Let_def world_ops
      split: prod.splits bool.splits)

lemma stopRecording_opens_nothing:
  "CreateRecording \<notin> set (issued w (snd (stopRecording e (s, w))))
   \<and> set (recorders (snd (stopRecording e (s, w)))) \<subseteq> set (recorders w)"
proof (cases "recording s")
  case None
  then show ?thesis by (simp add: stopRecording.simps issued_def)
next
  case (Some r)
  show ?thesis
  proof (cases "fails e (StopAndUnload r)")
    case True
    then show ?thesis using Some by (simp add: stopRecording.simps Let_def world_ops)
  next
    case False
    let ?from = "getURI e r"
    let ?to = "RECORDINGS_DIR e @ ''rec_'' @ Number_toString (clock e 0) @ getFileExtension (OS e)"
    show ?thesis
    proof (cases "fails e (MoveFile ?from ?to)")
      case True
      then show ?thesis using Some False
        by (simp add: stopRecording.simps Let_def world_ops)
    next
      case ok: False
      obtain s2 w4 e' where d: "stopRecording e (s, w) = loadRecordings e' (s2, w4)"
        and t: "trace w4 = trace w @ [StopAndUnload r, MoveFile ?from ?to]"
        and r: "recorders w4 = removeAll r (recorders w)"
        using Some False ok by (simp add: stopRecording.simps Let_def world_ops)
      have "issued w (snd (loadRecordings e' (s2, w4)))
          = [StopAndUnload r, MoveFile ?from ?to] @ issued w4 (snd (loadRecordings e' (s2, w4)))"
        using t by (rule issued_loadRecordings)
      then show ?thesis
        using loadRecordings_recorders[of e' s2 w4] r by (auto simp: d)
    qed
  qed
qed

text \<open>
  The record button reads \<open>isRecording\<close>, not \<open>recording\<close>. While \<open>isRecording\<close> holds a
  press runs \<open>stopRecording\<close>, which issues no call that opens a capture resource and
  opens none; otherwise a press runs \<open>startRecording\<close>.
\<close>

lemma pressRecordButton_while_recording:
  "isRecording s \<Longrightarrow>
     pressRecordButton e (s, w) = stopRecording e (s, w)
     \<and> CreateRecording \<notin> set (issued w (snd (pressRecordButton e (s, w))))
     \<and> set (recorders (snd (pressRecordButton e (s, w)))) \<subseteq> set (recorders w)"
  using stopRecording_opens_nothing[of w e s] by (simp add: pressRecordButton.simps)

lemma pressRecordButton_otherwise:
  "\<not> isRecording s \<Longrightarrow> pressRecordButton e (s, w) = startRecording e (s, w)"
  by (simp add: pressRecordButton.simps)

text \<open>
  C3, as the code has it. \<open>startRecording\<close> does not look at the capture state. Run
  while a capture handle is held, it is rejected exactly when its run throws, that is
  when the permission status is \<open>null\<close> or a platform call it makes rejects: then the
  handle held, \<open>isRecording\<close> and the open capture resources are what they were, and
  the alert is raised. When its run does not throw, it has issued the call that opens a
  recorder, a second capture resource is open and the new handle has replaced the one
  that was held.
\<close>

theorem C3_start_rejected_iff_throws:
  "(recording s \<noteq> None \<and> startFails e s \<longrightarrow>
      recording (fst (startRecording e (s, w))) = recording s
      \<and> isRecording (fst (startRecording e (s, w))) = isRecording s
      \<and> recorders (snd (startRecording e (s, w))) = recorders w
      \<and> alerts (snd (startRecording e (s, w))) = alerts w @ [''Failed to start recording''])
   \<and> (recording s \<noteq> None \<and> \<not> startFails e s \<longrightarrow>
      recording (fst (startRecording e (s, w))) = Some (fresh w)
      \<and> recorders (snd (startRecording e (s, w))) = recorders w @ [fresh w]
      \<and> CreateRecording \<in> set (issued w (snd (startRecording e (s, w))))
      \<and> alerts (snd (startRecording e (s, w))) = alerts w)"
  using startRecording_failed[of e s w] startRecording_opened[of e s w]
  by simp

theorem C3_start_rejected_iff_throws_witness:
  "recording (fst (startRecording env0 (granted0, world0))) = Some 0
   \<and> \<not> startFails env0 (fst (startRecording env0 (granted0, world0)))
   \<and> recording (fst (startRecording env0 (startRecording env0 (granted0, world0)))) = Some 1
   \<and> recorders (snd (startRecording env0 (startRecording env0 (granted0, world0)))) = [0, 1]
   \<and> startFails (env0\<lparr>fails := open_fails\<rparr>) (fst (startRecording env0 (granted0, world0)))
   \<and> recording (fst (startRecording (env0\<lparr>fails := open_fails\<rparr>)
         (startRecording env0 (granted0, world0)))) = Some 0
   \<and> recorders (snd (startRecording (env0\<lparr>fails := open_fails\<rparr>)
         (startRecording env0 (granted0, world0)))) = [0]
   \<and> alerts (snd (startRecording (env0\<lparr>fails := open_fails\<rparr>)
         (startRecording env0 (granted0, world0)))) = [''Failed to start recording'']"
  using C3_start_rejected_iff_throws[of "fst (startRecording env0 (granted0, world0))" env0
      "snd (startRecording env0 (granted0, world0))"]
    C3_start_rejected_iff_throws[of "fst (startRecording env0 (granted0, world0))"
      "env0\<lparr>fails := open_fails\<rparr>" "snd (startRecording env0 (granted0, world0))"]
  by (simp add: startFails_def startRecording.simps open_fails_def
      Let_def world_ops granted0_def initial_def world0_def env0_def nothing_fails_def)

text \<open>
  \<open>startRecording\<close> run twice on a platform that rejects nothing: the second run issues
  the call that opens a recorder, two capture resources are open, and the handle of the
  first is no longer held.
\<close>

theorem C3_second_start_counterexample:
  "recording (fst (startRecording env0 (granted0, world0))) = Some 0
   \<and> recorders (snd (startRecording env0 (granted0, world0))) = [0]
   \<and> recording (fst (startRecording env0 (startRecording env0 (granted0, world0)))) = Some 1
   \<and> recorders (snd (startRecording env0 (startRecording env0 (granted0, world0)))) = [0, 1]
   \<and> issued (snd (startRecording env0 (granted0, world0)))
        (snd (startRecording env0 (startRecording env0 (granted0, world0))))
       = [SetAudioMode, CreateRecording]"
  by (simp add: startRecording.simps Let_def world_ops granted0_def initial_def world0_def
      env0_def nothing_fails_def)

text \<open>
  C4, as the code has it. With the permission status still \<open>null\<close> the run throws before
  any platform call, and the alert is raised. With a status other than \<open>granted\<close>,
  permission is requested once and the answer is stored but not looked at: the run goes
  on to set the audio mode and to open the recorder. If no call rejects, the handle of
  the new recorder is stored and no alert is raised; if a call rejects, no handle is
  stored, no resource is open that was not, and the alert
  \<open>Failed to start recording\<close> is raised.
\<close>

theorem C4_denied_still_opens:
  "(permissionResponse s = None \<longrightarrow>
      startRecording e (s, w) = (s, alert ''Failed to start recording'' w))
   \<and> (permissionResponse s = Some status \<and> status \<noteq> Granted \<and> \<not> startFails e s \<longrightarrow>
      issued w (snd (startRecording e (s, w)))
        = [RequestPermission, SetAudioMode, CreateRecording]
      \<and> permissionResponse (fst (startRecording e (s, w))) = Some (requestResult e)
      \<and> recording (fst (startRecording e (s, w))) = Some (fresh w)
      \<and> isRecording (fst (startRecording e (s, w)))
      \<and> recorders (snd (startRecording e (s, w))) = recorders w @ [fresh w]
      \<and> alerts (snd (startRecording e (s, w))) = alerts w)
   \<and> (permissionResponse s = Some status \<and> status \<noteq> Granted \<and> startFails e s \<longrightarrow>
      recording (fst (startRecording e (s, w))) = recording s
      \<and> isRecording (fst (startRecording e (s, w))) = isRecording s
      \<and> recorders (snd (startRecording e (s, w))) = recorders w
      \<and> alerts (snd (startRecording e (s, w))) = alerts w @ [''Failed to start recording''])"
  using startRecording_null[of s e w] startRecording_denied_trace[of s status e w]
    startRecording_failed[of e s w] startRecording_opened[of e s w]
  by simp

theorem C4_denied_still_opens_witness:
  "permissionResponse denied0 = Some Denied \<and> requestResult env0 = Denied
   \<and> \<not> startFails env0 denied0
   \<and> recording (fst (startRecording env0 (denied0, world0))) = Some 0
   \<and> startFails (env0\<lparr>fails := open_fails\<rparr>) denied0
   \<and> recording (fst (startRecording (env0\<lparr>fails := open_fails\<rparr>) (denied0, world0))) = None
   \<and> alerts (snd (startRecording (env0\<lparr>fails := open_fails\<rparr>) (denied0, world0)))
       = [''Failed to start recording'']
   \<and> startRecording env0 (initial, world0)
       = (initial, alert ''Failed to start recording'' world0)"
  using C4_denied_still_opens[of denied0 env0 world0 Denied]
    C4_denied_still_opens[of denied0 "env0\<lparr>fails := open_fails\<rparr>" world0 Denied]
    C4_denied_still_opens[of initial env0 world0 Denied]
  by (simp add: startFails_def denied0_def initial_def world0_def env0_def nothing_fails_def
      open_fails_def)

text \<open>
  Permission denied, and denied again on request, on a platform that rejects no call:
  the recorder is opened and its handle stored, and no alert is raised.
\<close>

theorem C4_denied_counterexample:
  "permissionResponse denied0 = Some Denied \<and> requestResult env0 = Denied
   \<and> recording (fst (startRecording env0 (denied0, world0))) = Some 0
   \<and> isRecording (fst (startRecording env0 (denied0, world0)))
   \<and> recorders (snd (startRecording env0 (denied0, world0))) = [0]
   \<and> trace (snd (startRecording env0 (denied0, world0)))
       = [RequestPermission, SetAudioMode, CreateRecording]
   \<and> alerts (snd (startRecording env0 (denied0, world0))) = []"
  by (simp add: startRecording.simps Let_def world_ops denied0_def initial_def world0_def
      env0_def nothing_fails_def)

text \<open>
  C10. With no capture handle, \<open>stopRecording\<close> returns at once: the component's state
  and the platform, with its files and its trace of calls, are what they were.
\<close>

theorem C10_stop_without_capture:
  "recording s = None \<Longrightarrow> stopRecording e (s, w) = (s, w)"
  by (simp add: stopRecording.simps)

theorem C10_stop_without_capture_witness:
  "recording initial = None \<and> stopRecording env0 (initial, world0) = (initial, world0)"
  using C10_stop_without_capture[of initial env0 world0] by (simp add: initial_def)

subsection \<open>Playback\<close>

text \<open>
  C5. Toggling the identity that is loaded and playing pauses its resource, which stays
  loaded under the same handle, and marks it as not playing; the only call issued is the
  pause. Hence two toggles of one identity from the empty state, the load and the pause
  succeeding, end in the loaded, not playing state, which is not the empty state.
\<close>

theorem C5_toggle_same_pauses:
  "(sound s = Some h \<and> Loaded u True (s, w) \<and> \<not> fails e (PauseSound h) \<longrightarrow>
      Loaded u False (playSound e u (s, w))
      \<and> sound (fst (playSound e u (s, w))) = Some h
      \<and> issued w (snd (playSound e u (s, w))) = [PauseSound h])
   \<and> (Empty (s0, w0)
       \<and> (case sound s0 of None \<Rightarrow> True | Some h0 \<Rightarrow> \<not> fails e1 (UnloadSound h0))
       \<and> \<not> fails e1 (CreateSound u) \<and> \<not> fails e2 (PauseSound (fresh w0)) \<longrightarrow>
      Loaded u False (playSound e2 u (playSound e1 u (s0, w0)))
      \<and> \<not> Empty (playSound e2 u (playSound e1 u (s0, w0))))"
  by (auto simp: playSound.simps createAndPlay.simps Let_def world_ops split: option.splits)

theorem C5_toggle_same_pauses_witness:
  "Empty (initial, world0)
   \<and> Loaded ''a'' True (playSound env0 ''a'' (initial, world0))
   \<and> Loaded ''a'' False (playSound env0 ''a'' (playSound env0 ''a'' (initial, world0)))
   \<and> \<not> Empty (playSound env0 ''a'' (playSound env0 ''a'' (initial, world0)))
   \<and> issued (snd (playSound env0 ''a'' (initial, world0)))
        (snd (playSound env0 ''a'' (playSound env0 ''a'' (initial, world0)))) = [PauseSound 0]"
  using C5_toggle_same_pauses[of "fst (playSound env0 ''a'' (initial, world0))" 0 "''a''"
      "snd (playSound env0 ''a'' (initial, world0))" env0 initial world0 env0 env0]
  by (simp add: playSound.simps createAndPlay.simps Let_def world_ops initial_def world0_def
      env0_def nothing_fails_def)

text \<open>
  C6. Toggling another identity while one is loaded and playing, the unload and the load
  succeeding: the old resource is unloaded first, then the new one is created, and these
  are the only calls; the new identity is loaded and playing under a new handle, and the
  old handle is neither held by the component nor that of a loaded resource. (The state
  is one in which handles are in order, as every state reached from the initial one is.)
\<close>

theorem C6_toggle_other_switches:
  "sound s = Some h1 \<and> Loaded u1 True (s, w) \<and> u1 \<noteq> u2 \<and> sound_handle_ok (s, w)
   \<and> \<not> fails e (UnloadSound h1) \<and> \<not> fails e (CreateSound u2) \<longrightarrow>
     Loaded u2 True (playSound e u2 (s, w))
     \<and> sound (fst (playSound e u2 (s, w))) = Some (fresh w)
     \<and> sounds (snd (playSound e u2 (s, w))) h1 = None
     \<and> issued w (snd (playSound e u2 (s, w))) = [UnloadSound h1, CreateSound u2]"
  by (auto simp: playSound.simps createAndPlay.simps Let_def world_ops split: option.splits)

theorem C6_toggle_other_switches_witness:
  "Loaded ''a'' True (playSound env0 ''a'' (initial, world0))
   \<and> Loaded ''b'' True (playSound env0 ''b'' (playSound env0 ''a'' (initial, world0)))
   \<and> sound (fst (playSound env0 ''b'' (playSound env0 ''a'' (initial, world0)))) = Some 1
   \<and> sounds (snd (playSound env0 ''b'' (playSound env0 ''a'' (initial, world0)))) 0 = None
   \<and> issued (snd (playSound env0 ''a'' (initial, world0)))
        (snd (playSound env0 ''b'' (playSound env0 ''a'' (initial, world0))))
       = [UnloadSound 0, CreateSound ''b'']"
  using C6_toggle_other_switches[of "fst (playSound env0 ''a'' (initial, world0))" 0 "''a''"
      "snd (playSound env0 ''a'' (initial, world0))" "''b''" env0]
  by (simp add: playSound.simps createAndPlay.simps Let_def world_ops initial_def world0_def
      env0_def nothing_fails_def)

text \<open>
  C8, as the code has it. When a loaded sound reports that it has just finished, the
  active identity is cleared and nothing is marked as playing; the state is therefore
  not the one a toggle of the playing identity leaves, where the identity is kept. The
  resource is not released: no call is issued, the component keeps its handle, and the
  sound stays loaded, not playing. When the sound is the one the component holds, the
  session is therefore not empty.
\<close>

theorem C8_finish_clears_identity:
  "sounds w h = Some (src, p) \<longrightarrow>
     playingUri (fst (playbackFinished h (s, w))) = None
     \<and> \<not> isPlaying (fst (playbackFinished h (s, w)))
     \<and> \<not> Loaded u False (playbackFinished h (s, w))
     \<and> sound (fst (playbackFinished h (s, w))) = sound s
     \<and> sounds (snd (playbackFinished h (s, w))) h = Some (src, False)
     \<and> trace (snd (playbackFinished h (s, w))) = trace w
     \<and> (sound s = Some h \<longrightarrow> \<not> Empty (playbackFinished h (s, w)))"
  by (auto simp: playbackFinished.simps onPlaybackStatusUpdate_def world_ops
      split: option.splits)

theorem C8_finish_clears_identity_witness:
  "sounds (snd (playSound env0 ''a'' (initial, world0))) 0 = Some (''a'', True)
   \<and> sound (fst (playSound env0 ''a'' (initial, world0))) = Some 0
   \<and> playingUri (fst (playbackFinished 0 (playSound env0 ''a'' (initial, world0)))) = None
   \<and> sound (fst (playbackFinished 0 (playSound env0 ''a'' (initial, world0)))) = Some 0"
  using C8_finish_clears_identity[of "snd (playSound env0 ''a'' (initial, world0))" 0 "''a''" True
      "fst (playSound env0 ''a'' (initial, world0))" "''a''"]
  by (simp add: playSound.simps createAndPlay.simps Let_def world_ops initial_def world0_def
      env0_def nothing_fails_def)

text \<open>
  One sound played from the empty state to its end: the component still holds its
  handle, the resource is still loaded, and no call has followed the one that created
  it.
\<close>

theorem C8_resource_released_counterexample:
  "\<not> Empty (playbackFinished 0 (playSound env0 ''a'' (initial, world0)))
   \<and> sound (fst (playbackFinished 0 (playSound env0 ''a'' (initial, world0)))) = Some 0
   \<and> sounds (snd (playbackFinished 0 (playSound env0 ''a'' (initial, world0)))) 0
       = Some (''a'', False)
   \<and> trace (snd (playbackFinished 0 (playSound env0 ''a'' (initial, world0))))
       = [CreateSound ''a'']"
  by (simp add: playbackFinished.simps onPlaybackStatusUpdate_def playSound.simps
      createAndPlay.simps Let_def world_ops initial_def world0_def env0_def nothing_fails_def)

subsection \<open>Deleting\<close>

text \<open>
  C7. \<open>deleteRecording\<close> of the active identity, a sound being held. The first call is
  the unload of the held sound. If it rejects, nothing else is done: no file is deleted.
  If it succeeds, the second call is the deletion of the file, the resource is no longer
  loaded, and the playback session is empty whatever happens next. If the deletion and
  the listing that follows succeed as well, no entry of the list has the deleted
  identity.
\<close>

theorem C7_delete_active_releases_first:
  "sound s = Some h \<and> playingUri s = Some u \<longrightarrow>
     (fails e (UnloadSound h) \<longrightarrow>
        fst (deleteRecording e u (s, w)) = s
        \<and> issued w (snd (deleteRecording e u (s, w))) = [UnloadSound h]
        \<and> dirFiles (snd (deleteRecording e u (s, w))) = dirFiles w)
     \<and> (\<not> fails e (UnloadSound h) \<longrightarrow>
        Empty (deleteRecording e u (s, w))
        \<and> sounds (snd (deleteRecording e u (s, w))) h = None
        \<and> take 2 (issued w (snd (deleteRecording e u (s, w)))) = [UnloadSound h, DeleteFile u])
     \<and> (\<not> fails e (UnloadSound h) \<and> \<not> fails e (DeleteFile u) \<and> \<not> listFails e w \<longrightarrow>
        u \<notin> uri ` set (recordings (fst (deleteRecording e u (s, w)))))"
proof (intro impI conjI)
  assume a: "sound s = Some h \<and> playingUri s = Some u" and f: "fails e (UnloadSound h)"
  then show "fst (deleteRecording e u (s, w)) = s"
    "issued w (snd (deleteRecording e u (s, w))) = [UnloadSound h]"
    "dirFiles (snd (deleteRecording e u (s, w))) = dirFiles w"
    by (simp_all add: deleteRecording.simps world_ops)
next
  assume a: "sound s = Some h \<and> playingUri s = Some u" and f: "\<not> fails e (UnloadSound h)"
  let ?s1 = "s\<lparr>playingUri := None, isPlaying := False\<rparr>"
  let ?w1 = "unload h (log (UnloadSound h) w)"
  let ?w2 = "log (DeleteFile u) ?w1"
  let ?w3 = "?w2\<lparr>dirFiles := filter (\<lambda>f. RECORDINGS_DIR e @ f \<noteq> u) (dirFiles ?w2)\<rparr>"
  have d: "deleteRecording e u (s, w)
      = (if fails e (DeleteFile u) then (?s1, ?w2) else loadRecordings e (?s1, ?w3))"
    using a f by (simp add: deleteRecording.simps deleteAndReload.simps Let_def)
  have e1: "Empty (?s1, ?w2)" "Empty (?s1, ?w3)" using a by (simp_all add: world_ops)
  show "Empty (deleteRecording e u (s, w))"
    using e1 by (simp add: d Empty_loadRecordings)
  show "sounds (snd (deleteRecording e u (s, w))) h = None"
    by (simp add: d loadRecordings_sounds) (simp add: world_ops)
  have t: "trace ?w3 = trace w @ [UnloadSound h, DeleteFile u]" by (simp add: world_ops)
  show "take 2 (issued w (snd (deleteRecording e u (s, w)))) = [UnloadSound h, DeleteFile u]"
  proof (cases "fails e (DeleteFile u)")
    case True
    then show ?thesis by (simp add: d) (simp add: world_ops)
  next
    case False
    then show ?thesis using issued_loadRecordings[OF t, of e ?s1] by (simp add: d)
  qed
next
  assume a: "sound s = Some h \<and> playingUri s = Some u"
    and ok: "\<not> fails e (UnloadSound h) \<and> \<not> fails e (DeleteFile u) \<and> \<not> listFails e w"
  let ?s1 = "s\<lparr>playingUri := None, isPlaying := False\<rparr>"
  let ?w1 = "unload h (log (UnloadSound h) w)"
  let ?w2 = "log (DeleteFile u) ?w1"
  let ?w3 = "?w2\<lparr>dirFiles := filter (\<lambda>f. RECORDINGS_DIR e @ f \<noteq> u) (dirFiles ?w2)\<rparr>"
  have d: "deleteRecording e u (s, w) = loadRecordings e (?s1, ?w3)"
    using a ok by (simp add: deleteRecording.simps deleteAndReload.simps Let_def)
  have "\<not> listFails e ?w3" using ok by (simp add: listFails_def world_ops)
  then have "recordings (fst (deleteRecording e u (s, w)))
      = fileList (RECORDINGS_DIR e) (clock e) (dirFiles ?w3)"
    unfolding d by (simp add: loadRecordings_rebuilt)
  then show "u \<notin> uri ` set (recordings (fst (deleteRecording e u (s, w))))"
    by (auto simp: uri_fileList)
qed

theorem C7_delete_active_releases_first_witness:
  "Loaded ''file:///doc/recordings/rec_7.wav'' True
     (playSound env0 ''file:///doc/recordings/rec_7.wav''
        (initial, world0\<lparr>dirFiles := [''rec_7.wav'', ''rec_9.wav'']\<rparr>))
   \<and> Empty (deleteRecording env0 ''file:///doc/recordings/rec_7.wav''
        (playSound env0 ''file:///doc/recordings/rec_7.wav''
           (initial, world0\<lparr>dirFiles := [''rec_7.wav'', ''rec_9.wav'']\<rparr>)))
   \<and> ''file:///doc/recordings/rec_7.wav'' \<notin> uri ` set (recordings (fst
       (deleteRecording env0 ''file:///doc/recordings/rec_7.wav''
        (playSound env0 ''file:///doc/recordings/rec_7.wav''
           (initial, world0\<lparr>dirFiles := [''rec_7.wav'', ''rec_9.wav'']\<rparr>)))))
   \<and> dirFiles (snd (deleteRecording (env0\<lparr>fails := unload_fails\<rparr>)
        ''file:///doc/recordings/rec_7.wav''
        (playSound env0 ''file:///doc/recordings/rec_7.wav''
           (initial, world0\<lparr>dirFiles := [''rec_7.wav'', ''rec_9.wav'']\<rparr>))))
       = [''rec_7.wav'', ''rec_9.wav'']"
  using C7_delete_active_releases_first[of
      "fst (playSound env0 ''file:///doc/recordings/rec_7.wav''
        (initial, world0\<lparr>dirFiles := [''rec_7.wav'', ''rec_9.wav'']\<rparr>))" 0
      "''file:///doc/recordings/rec_7.wav''" env0
      "snd (playSound env0 ''file:///doc/recordings/rec_7.wav''
        (initial, world0\<lparr>dirFiles := [''rec_7.wav'', ''rec_9.wav'']\<rparr>))"]
    C7_delete_active_releases_first[of
      "fst (playSound env0 ''file:///doc/recordings/rec_7.wav''
        (initial, world0\<lparr>dirFiles := [''rec_7.wav'', ''rec_9.wav'']\<rparr>))" 0
      "''file:///doc/recordings/rec_7.wav''" "env0\<lparr>fails := unload_fails\<rparr>"
      "snd (playSound env0 ''file:///doc/recordings/rec_7.wav''
        (initial, world0\<lparr>dirFiles := [''rec_7.wav'', ''rec_9.wav'']\<rparr>))"]
  by (simp add: playSound.simps createAndPlay.simps Let_def world_ops initial_def world0_def
      env0_def nothing_fails_def listFails_def unload_fails_def)

end
